theory Spec2Isabelle
  imports Complex_Main
begin

section \<open>JavaScript strings\<close>

text \<open>
  A JavaScript string is a sequence of code units; it is modelled as a \<open>string\<close>
  (a list of characters), one character per code unit, for the code units a
  \<open>char\<close> holds (0 to 255). The operations of the standard library the processor
  calls are written out below.
\<close>

definition LF :: char where
  "LF = CHR 0x0A"

text \<open>
  \<open>String.prototype.trim\<close> strips WhiteSpace and LineTerminator code units from both
  ends: TAB, LF, VT, FF, CR, SP and NBSP among the code units a \<open>char\<close> holds.
\<close>

definition isWhiteSpace :: "char \<Rightarrow> bool" where
  "isWhiteSpace c =
     (c = CHR 0x09 \<or> c = CHR 0x0A \<or> c = CHR 0x0B \<or> c = CHR 0x0C \<or> c = CHR 0x0D \<or>
      c = CHR 0x20 \<or> c = CHR 0xA0)"

definition trim :: "string \<Rightarrow> string" where
  "trim s = rev (dropWhile isWhiteSpace (rev (dropWhile isWhiteSpace s)))"

text \<open>\<open>s.substring(0, n)\<close> for a length \<open>n\<close>.\<close>

definition substring0 :: "string \<Rightarrow> nat \<Rightarrow> string" where
  "substring0 s n = take n s"

text \<open>The decimal numeral of a natural number, as a template literal prints it.\<close>

fun numberToString :: "nat \<Rightarrow> string" where
  "numberToString n =
     (if n < 10 then [''0123456789'' ! n]
      else numberToString (n div 10) @ [''0123456789'' ! (n mod 10)])"

text \<open>\<open>xs.join(sep)\<close>.\<close>

fun join :: "string \<Rightarrow> string list \<Rightarrow> string" where
  "join sep [] = []"
| "join sep [x] = x"
| "join sep (x # y # ys) = x @ sep @ join sep (y # ys)"

text \<open>
  \<open>s.replace(pattern, replacement)\<close> with a string pattern and a string replacement:
  the first occurrence of the pattern is replaced, and in the replacement text
  \<open>$$\<close> stands for a dollar sign, \<open>$&\<close> for the matched text, dollar-backquote
  for the text before the match and dollar-quote for the text after it (there are no
  capture groups, so every other dollar sign is literal).
\<close>

fun findFirst :: "string \<Rightarrow> string \<Rightarrow> (string \<times> string) option" where
  "findFirst pat [] = (if pat = [] then Some ([], []) else None)"
| "findFirst pat (c # cs) =
     (if take (length pat) (c # cs) = pat then Some ([], drop (length pat) (c # cs))
      else (case findFirst pat cs of
              None \<Rightarrow> None
            | Some (pre, post) \<Rightarrow> Some (c # pre, post)))"

fun getSubstitution :: "string \<Rightarrow> string \<Rightarrow> string \<Rightarrow> string \<Rightarrow> string" where
  "getSubstitution matched pre post [] = []"
| "getSubstitution matched pre post [c] = [c]"
| "getSubstitution matched pre post (c # d # t) =
     (if c = CHR ''$'' \<and> d = CHR ''$'' then CHR ''$'' # getSubstitution matched pre post t
      else if c = CHR ''$'' \<and> d = CHR ''&'' then matched @ getSubstitution matched pre post t
      else if c = CHR ''$'' \<and> d = CHR 0x60 then pre @ getSubstitution matched pre post t
      else if c = CHR ''$'' \<and> d = CHR 0x27 then post @ getSubstitution matched pre post t
      else c # getSubstitution matched pre post (d # t))"

definition replaceString :: "string \<Rightarrow> string \<Rightarrow> string \<Rightarrow> string" where
  "replaceString s pat repl =
     (case findFirst pat s of
        None \<Rightarrow> s
      | Some (pre, post) \<Rightarrow> pre @ getSubstitution pat pre post repl @ post)"

text \<open>\<open>code.replace(/\n/g, '\n> ')\<close>: every line feed is followed by a quote mark.\<close>

definition quoteLines :: "string \<Rightarrow> string" where
  "quoteLines s = concat (map (\<lambda>c. if c = LF then LF # ''> '' else [c]) s)"

section \<open>The fence regular expression\<close>

text \<open>
  Both the extractor and the rewriter use the regular expression
  \<^verbatim>\<open>/```mermaid\n([\s\S]*?)\n```/g\<close>. A match is the literal opening marker, the
  shortest body after which the closing marker stands, and the closing marker.
  \<open>lazyBody\<close> is the lazy group followed by the closing marker: it tries the empty
  body first and then grows the body by one code unit at a time.
  \<open>regexSearch\<close> is one search of the expression in the text that starts at
  \<open>lastIndex\<close>: it tries every start position from the left. It returns the text
  before the match, the captured body, and the text after the match (where the next
  search starts). The expression has no anchor and no look-behind, so a search from
  \<open>lastIndex\<close> only reads the text from there on.
\<close>

definition fenceOpen :: string where
  "fenceOpen = ''```mermaid'' @ [LF]"

definition fenceClose :: string where
  "fenceClose = LF # ''```''"

fun lazyBody :: "string \<Rightarrow> (string \<times> string) option" where
  "lazyBody [] = None"
| "lazyBody (c # cs) =
     (if take 4 (c # cs) = fenceClose then Some ([], drop 4 (c # cs))
      else (case lazyBody cs of
              None \<Rightarrow> None
            | Some (body, rest) \<Rightarrow> Some (c # body, rest)))"

definition matchAt :: "string \<Rightarrow> (string \<times> string) option" where
  "matchAt s = (if take 11 s = fenceOpen then lazyBody (drop 11 s) else None)"

fun regexSearch :: "string \<Rightarrow> (string \<times> string \<times> string) option" where
  "regexSearch [] = None"
| "regexSearch (c # cs) =
     (case matchAt (c # cs) of
        Some (body, rest) \<Rightarrow> Some ([], body, rest)
      | None \<Rightarrow>
          (case regexSearch cs of
             None \<Rightarrow> None
           | Some (pre, body, rest) \<Rightarrow> Some (c # pre, body, rest)))"

text \<open>The whole text of a match with the given body (\<open>match[0]\<close>).\<close>

definition fence :: "string \<Rightarrow> string" where
  "fence body = fenceOpen @ body @ fenceClose"

lemma take_eq_decomp:
  "take n s = p \<Longrightarrow> s = p @ drop n s"
  by (metis append_take_drop_id)

lemma lazyBody_decomp:
  "lazyBody s = Some (body, rest) \<Longrightarrow> s = body @ fenceClose @ rest"
proof (induction s arbitrary: body)
  case Nil
  then show ?case by simp
next
  case (Cons c cs)
  show ?case
  proof (cases "take 4 (c # cs) = fenceClose")
    case True
    with Cons.prems have "body = []" and "rest = drop 4 (c # cs)" by simp_all
    with take_eq_decomp [OF True] show ?thesis by (metis append_Nil)
  next
    case False
    with Cons.prems obtain b where b: "lazyBody cs = Some (b, rest)" and "body = c # b"
      by (auto split: option.splits)
    with Cons.IH [OF b] show ?thesis by simp
  qed
qed

lemma matchAt_decomp:
  "matchAt s = Some (body, rest) \<Longrightarrow> s = fence body @ rest"
proof -
  assume m: "matchAt s = Some (body, rest)"
  then have o: "take 11 s = fenceOpen" and l: "lazyBody (drop 11 s) = Some (body, rest)"
    by (auto simp: matchAt_def split: if_splits)
  from take_eq_decomp [OF o] lazyBody_decomp [OF l] show ?thesis
    by (metis fence_def append_assoc)
qed

lemma regexSearch_decomp:
  "regexSearch s = Some (pre, body, rest) \<Longrightarrow> s = pre @ fence body @ rest"
proof (induction s arbitrary: pre)
  case Nil
  then show ?case by simp
next
  case (Cons c cs)
  show ?case
  proof (cases "matchAt (c # cs)")
    case (Some m)
    with Cons.prems have "matchAt (c # cs) = Some (body, rest)" and "pre = []"
      by (auto split: prod.splits)
    then show ?thesis using matchAt_decomp by simp
  next
    case None
    with Cons.prems obtain p where p: "regexSearch cs = Some (p, body, rest)" and "pre = c # p"
      by (auto split: option.splits)
    with Cons.IH [OF p] show ?thesis by simp
  qed
qed

lemma regexSearch_shorter:
  "regexSearch s = Some (pre, body, rest) \<Longrightarrow> length rest < length s"
  by (drule regexSearch_decomp) (simp add: fence_def fenceOpen_def)

section \<open>JavaScript numbers\<close>

text \<open>
  \<open>config.concurrent\<close> is a \<open>number\<close> that nothing validates: it may be a
  fraction, NaN or an infinity. A number is modelled as a rational or one of the
  three special values. The rationals are exact where the doubles are: on the
  integers and the binary fractions (0.5, 2.5) of the size the loop counter takes.
  \<open>jsAdd\<close> is \<open>+\<close>, \<open>jsLess\<close> is \<open><\<close> (false when an operand is NaN), and
  \<open>toIntegerOrInfinity\<close> is the conversion \<open>Array.prototype.slice\<close> applies to its
  arguments: NaN becomes 0 and a fraction is truncated towards 0.
\<close>

datatype jsNumber = Num rat | NaN | PosInfinity | NegInfinity

fun jsAdd :: "jsNumber \<Rightarrow> jsNumber \<Rightarrow> jsNumber" where
  "jsAdd (Num a) (Num b) = Num (a + b)"
| "jsAdd NaN y = NaN"
| "jsAdd x NaN = NaN"
| "jsAdd PosInfinity NegInfinity = NaN"
| "jsAdd NegInfinity PosInfinity = NaN"
| "jsAdd PosInfinity y = PosInfinity"
| "jsAdd x PosInfinity = PosInfinity"
| "jsAdd NegInfinity y = NegInfinity"
| "jsAdd x NegInfinity = NegInfinity"

fun jsLess :: "jsNumber \<Rightarrow> jsNumber \<Rightarrow> bool" where
  "jsLess (Num a) (Num b) = (a < b)"
| "jsLess NaN y = False"
| "jsLess x NaN = False"
| "jsLess PosInfinity y = False"
| "jsLess x NegInfinity = False"
| "jsLess x PosInfinity = True"
| "jsLess NegInfinity y = True"

datatype integerOrInfinity = MinusInf | Finite int | PlusInf

definition truncToZero :: "rat \<Rightarrow> int" where
  "truncToZero q = (if 0 \<le> q then \<lfloor>q\<rfloor> else \<lceil>q\<rceil>)"

fun toIntegerOrInfinity :: "jsNumber \<Rightarrow> integerOrInfinity" where
  "toIntegerOrInfinity NaN = Finite 0"
| "toIntegerOrInfinity PosInfinity = PlusInf"
| "toIntegerOrInfinity NegInfinity = MinusInf"
| "toIntegerOrInfinity (Num q) = Finite (truncToZero q)"

section \<open>The data model (types.ts)\<close>

datatype Theme = Light | Dark | Neutral | Forest | Base | Default

fun themeName :: "Theme \<Rightarrow> string" where
  "themeName Light = ''light''"
| "themeName Dark = ''dark''"
| "themeName Neutral = ''neutral''"
| "themeName Forest = ''forest''"
| "themeName Base = ''base''"
| "themeName Default = ''default''"

text \<open>\<open>NoSource\<close> is the style the source writes \<open>'none'\<close>.\<close>

datatype SourceCodeStyle = Inline | Blockquote | Footnote | Details | NoSource

text \<open>
  \<open>concurrent\<close> is the step of the chunk loop. The specification has it a positive
  integer; the type is \<open>number\<close> and the chunk loop of \<open>processDirectory\<close> does not
  check it, so the model lets it be any number.
\<close>

record ProcessorConfig =
  inputDir :: string
  outputDir :: string
  baseUrl :: string
  defaultTheme :: Theme
  generateBothThemes :: bool
  includeSourceCode :: bool
  sourceCodeStyle :: SourceCodeStyle
  backgroundColor :: string
  concurrent :: jsNumber
  skipExisting :: bool
  verbose :: bool
  dbPath :: "string option"

record ProcessingStats =
  filesProcessed :: nat
  diagramsGenerated :: nat
  diagramsSkipped :: nat
  errors :: nat

record DiagramInfo =
  id' :: string
  code :: string
  altText :: string
  index :: nat

record ProcessingResult =
  success :: bool
  filePath :: string
  diagramsProcessed :: nat
  error :: "string option"

text \<open>
  The functions of the Node.js library the processor imports (\<open>crypto\<close> and
  \<open>path\<close>) are not code of the repository; they are parameters of the model.
  \<open>sha256hex s\<close> stands for
  \<^verbatim>\<open>createHash('sha256').update(s).digest('hex')\<close>.
\<close>

record platform =
  sha256hex :: "string \<Rightarrow> string"
  pathJoin :: "string \<Rightarrow> string \<Rightarrow> string"
  pathBasename :: "string \<Rightarrow> string \<Rightarrow> string"
  pathExtname :: "string \<Rightarrow> string"

definition createContentHash :: "platform \<Rightarrow> string \<Rightarrow> string" where
  "createContentHash P content = sha256hex P content"

section \<open>Extraction (processor.ts, extractMermaidDiagrams)\<close>

text \<open>
  The loop of \<open>extractMermaidDiagrams\<close>: \<open>text\<close> is the content from
  \<open>lastIndex\<close> on, \<open>idx\<close> the counter and \<open>diagrams\<close> the array built so far.
  The regular expression object is created by the call, so every call starts the
  search at the beginning of the content with the counter at 0.
\<close>

definition mkDiagram :: "platform \<Rightarrow> nat \<Rightarrow> string \<Rightarrow> DiagramInfo" where
  "mkDiagram P idx body =
     (let code = trim body;
          id = substring0 (createContentHash P code) 8;
          altText = ''Mermaid diagram '' @ numberToString (idx + 1)
      in \<lparr>id' = id, code = code, altText = altText, index = idx\<rparr>)"

function extractLoop :: "platform \<Rightarrow> string \<Rightarrow> nat \<Rightarrow> DiagramInfo list \<Rightarrow> DiagramInfo list" where
  "extractLoop P text idx diagrams =
     (case regexSearch text of
        None \<Rightarrow> diagrams
      | Some (pre, body, rest) \<Rightarrow>
          extractLoop P rest (idx + 1) (diagrams @ [mkDiagram P idx body]))"
  by pat_completeness auto
termination
  by (relation "measure (\<lambda>(P, text, idx, diagrams). length text)")
     (auto dest: regexSearch_shorter)

definition extractMermaidDiagrams :: "platform \<Rightarrow> string \<Rightarrow> DiagramInfo list" where
  "extractMermaidDiagrams P content = extractLoop P content 0 []"

section \<open>Rewriting (processor.ts, replaceMermaidBlocks)\<close>

datatype jsError = TypeError

text \<open>
  The text that replaces a fenced block: the image reference and, by the style,
  the source again. The \<open>switch\<close> has no case for \<open>footnote\<close>.
\<close>

definition sourceSuffix :: "ProcessorConfig \<Rightarrow> string \<Rightarrow> string" where
  "sourceSuffix config body =
     (if includeSourceCode config \<and> sourceCodeStyle config \<noteq> NoSource then
        (case sourceCodeStyle config of
           Inline \<Rightarrow> [LF, LF] @ ''```mermaid'' @ [LF] @ body @ [LF] @ ''```''
         | Details \<Rightarrow>
             [LF, LF] @ ''<details>'' @ [LF] @ ''<summary>View source</summary>'' @ [LF, LF] @
             ''```mermaid'' @ [LF] @ body @ [LF] @ ''```'' @ [LF, LF] @ ''</details>''
         | Blockquote \<Rightarrow>
             [LF, LF] @ ''> ```mermaid'' @ [LF] @ ''> '' @ quoteLines body @ [LF] @ ''> ```''
         | Footnote \<Rightarrow> []
         | NoSource \<Rightarrow> [])
      else [])"

definition replacement :: "ProcessorConfig \<Rightarrow> DiagramInfo \<Rightarrow> string \<Rightarrow> string \<Rightarrow> string" where
  "replacement config diagram svgPath body =
     (let relativePath = replaceString svgPath (outputDir config) (baseUrl config)
      in ''!['' @ altText diagram @ ''](''  @ relativePath @ '')'' @ sourceSuffix config body)"

text \<open>
  The callback given to \<open>replace\<close>, with the counter \<open>index\<close> of its closure made
  a parameter and returned. Reading \<open>diagram.altText\<close> of a block that
  \<open>diagrams\<close> does not hold throws a TypeError.
\<close>

definition replacer ::
  "ProcessorConfig \<Rightarrow> DiagramInfo list \<Rightarrow> string list \<Rightarrow> nat \<Rightarrow> string \<Rightarrow> string
     \<Rightarrow> jsError + string \<times> nat" where
  "replacer config diagrams svgPaths idx matched body =
     (if idx < length svgPaths then
        (if idx < length diagrams
         then Inr (replacement config (diagrams ! idx) (svgPaths ! idx) body, idx + 1)
         else Inl TypeError)
      else Inr (matched, idx))"

text \<open>
  \<open>content.replace(mermaidRegex, callback)\<close>: the callback is called once for every
  match, from left to right, and its result stands in place of the match.
\<close>

function replaceLoop ::
  "(nat \<Rightarrow> string \<Rightarrow> string \<Rightarrow> jsError + string \<times> nat) \<Rightarrow> nat \<Rightarrow> string \<Rightarrow> jsError + string" where
  "replaceLoop f idx text =
     (case regexSearch text of
        None \<Rightarrow> Inr text
      | Some (pre, body, rest) \<Rightarrow>
          (case f idx (fence body) body of
             Inl e \<Rightarrow> Inl e
           | Inr (r, idx') \<Rightarrow>
               (case replaceLoop f idx' rest of
                  Inl e \<Rightarrow> Inl e
                | Inr out \<Rightarrow> Inr (pre @ r @ out))))"
  by pat_completeness auto
termination
  by (relation "measure (\<lambda>(f, idx, text). length text)")
     (auto dest: regexSearch_shorter)

definition replaceMermaidBlocks ::
  "string \<Rightarrow> DiagramInfo list \<Rightarrow> string list \<Rightarrow> ProcessorConfig \<Rightarrow> jsError + string" where
  "replaceMermaidBlocks content diagrams svgPaths config =
     replaceLoop (replacer config diagrams svgPaths) 0 content"

section \<open>Rendering and the environment\<close>

text \<open>
  The render gateway takes the diagram source and the theme name and returns the
  image text or a failure message (an Either of two strings, \<open>Inl\<close> for
  \<open>Left\<close>). \<open>generateSvg\<close> is the gateway of the source: a placeholder for the
  renderer, which never fails. The functions that call the gateway take it as a
  parameter \<open>render\<close>; the source passes \<open>generateSvg\<close>.
\<close>

type_synonym gateway = "string \<Rightarrow> string \<Rightarrow> string + string"

definition DQ :: char where
  "DQ = CHR 0x22"

definition generateSvg :: gateway where
  "generateSvg diagramCode theme =
     Inr (''<svg xmlns='' @ [DQ] @ ''http://www.w3.org/2000/svg'' @ [DQ] @
          '' viewBox='' @ [DQ] @ ''0 0 200 100'' @ [DQ] @ ''>'' @ [LF] @
          ''      <text x='' @ [DQ] @ ''10'' @ [DQ] @ '' y='' @ [DQ] @ ''50'' @ [DQ] @
          '' fill='' @ [DQ] @ ''currentColor'' @ [DQ] @ ''>Mermaid Diagram ('' @ theme @
          '')</text>'' @ [LF] @
          ''      <text x='' @ [DQ] @ ''10'' @ [DQ] @ '' y='' @ [DQ] @ ''70'' @ [DQ] @
          '' fill='' @ [DQ] @ ''currentColor'' @ [DQ] @ '' font-size='' @ [DQ] @ ''12'' @ [DQ] @
          ''>'' @ substring0 diagramCode 30 @ ''...</text>'' @ [LF] @
          ''    </svg>'')"

text \<open>
  What the run reads and changes outside the program:
  \<^item> \<open>listing dir\<close> is the outcome of \<open>getMarkdownFiles(dir)\<close>, the recursive walk
    that collects the \<open>.md\<close> and \<open>.mdx\<close> files: the error it throws or the paths;
  \<^item> \<open>disk path\<close> is the outcome of \<open>readFile(path, 'utf-8')\<close>: the error it throws
    or the content;
  \<^item> \<open>writeFails path\<close> is the error \<open>writeFile\<close> throws for the path, if any;
  \<^item> \<open>renders\<close> lists the calls of the gateway so far (source and theme), and
    \<open>writes\<close> the files written so far;
  \<^item> \<open>dbOpenError\<close>, \<open>dbHandle\<close> and \<open>diagram_cache\<close> are the cache database
    of database.ts: the error opening it throws, whether it is open (\<open>db\<close> is not
    null), and the rows of its table (content hash to artifact path).
\<close>

record world =
  listing :: "string \<Rightarrow> string + string list"
  disk :: "string \<Rightarrow> string + string"
  writeFails :: "string \<Rightarrow> string option"
  renders :: "(string \<times> string) list"
  writes :: "(string \<times> string) list"
  dbOpenError :: "string \<Rightarrow> string option"
  dbHandle :: bool
  diagram_cache :: "string \<rightharpoonup> string"

section \<open>The cache (database.ts)\<close>

definition checkCached :: "world \<Rightarrow> string \<Rightarrow> string + string option" where
  "checkCached w hash =
     (if \<not> dbHandle w then Inl ''Error: Database not initialized''
      else Inr (diagram_cache w hash))"

definition store :: "world \<Rightarrow> string \<Rightarrow> string \<Rightarrow> string + world" where
  "store w hash path =
     (if \<not> dbHandle w then Inl ''Error: Database not initialized''
      else Inr (w\<lparr>diagram_cache := (diagram_cache w)(hash \<mapsto> path)\<rparr>))"

section \<open>One diagram and one file (processor.ts, processDiagram and processFile)\<close>

text \<open>
  \<open>processDiagram\<close> calls the gateway and, when it succeeds, computes the path of
  the artifact. It takes no cache and calls neither \<open>checkCached\<close> nor \<open>store\<close>.
  (The \<open>catch\<close> around the path computation cannot be reached: the functions of
  \<open>path\<close> do not throw on strings.)
\<close>

definition processDiagram ::
  "platform \<Rightarrow> gateway \<Rightarrow> ProcessorConfig \<Rightarrow> DiagramInfo \<Rightarrow> string \<Rightarrow> world
     \<Rightarrow> (string + string) \<times> world" where
  "processDiagram P render config diagram path w =
     (let theme = themeName (defaultTheme config);
          svgResult = render (code diagram) theme;
          w' = w\<lparr>renders := renders w @ [(code diagram, theme)]\<rparr>
      in (case svgResult of
            Inl e \<Rightarrow> Inl e
          | Inr svg \<Rightarrow>
              (let fileName = pathBasename P path (pathExtname P path) @ ''-'' @ id' diagram @ ''.svg'';
                   outputPath = pathJoin P (outputDir config) fileName
               in Inr outputPath),
          w'))"

text \<open>\<open>diagrams.map(diagram => processDiagramFn(diagram, filePath))\<close>, awaited together.\<close>

fun processDiagrams ::
  "platform \<Rightarrow> gateway \<Rightarrow> ProcessorConfig \<Rightarrow> DiagramInfo list \<Rightarrow> string \<Rightarrow> world
     \<Rightarrow> (string + string) list \<times> world" where
  "processDiagrams P render config [] path w = ([], w)"
| "processDiagrams P render config (d # ds) path w =
     (let (r, w1) = processDiagram P render config d path w;
          (rs, w2) = processDiagrams P render config ds path w1
      in (r # rs, w2))"

text \<open>How a thrown error prints in a template literal.\<close>

fun errorText :: "jsError \<Rightarrow> string" where
  "errorText TypeError =
     ''TypeError: Cannot read properties of undefined (reading '' @ [CHR 0x27] @ ''altText'' @
     [CHR 0x27] @ '')''"

definition failedFile :: "string \<Rightarrow> string \<Rightarrow> ProcessingResult" where
  "failedFile path e =
     \<lparr>success = False, filePath = path, diagramsProcessed = 0,
      error = Some (''Failed to process file: '' @ e)\<rparr>"

definition processFile ::
  "platform \<Rightarrow> gateway \<Rightarrow> ProcessorConfig \<Rightarrow> string \<Rightarrow> world \<Rightarrow> ProcessingResult \<times> world" where
  "processFile P render config path w =
     (case disk w path of
        Inl e \<Rightarrow> (failedFile path e, w)
      | Inr content \<Rightarrow>
          (let diagrams = extractMermaidDiagrams P content
           in if length diagrams = 0
              then (\<lparr>success = True, filePath = path, diagramsProcessed = 0, error = None\<rparr>, w)
              else
                (let (svgResults, w1) = processDiagrams P render config diagrams path w;
                     errs = filter isl svgResults
                 in if length errs > 0
                    then (\<lparr>success = False, filePath = path, diagramsProcessed = 0,
                           error = Some (join ''; '' (map (case_sum (\<lambda>msg. msg) (\<lambda>_. [])) errs))\<rparr>,
                          w1)
                    else
                      (let svgPaths = map (case_sum (\<lambda>_. []) (\<lambda>p. p)) svgResults
                       in case replaceMermaidBlocks content diagrams svgPaths config of
                            Inl e \<Rightarrow> (failedFile path (errorText e), w1)
                          | Inr updatedContent \<Rightarrow>
                              (case writeFails w1 path of
                                 Some e \<Rightarrow> (failedFile path e, w1)
                               | None \<Rightarrow>
                                   (\<lparr>success = True, filePath = path,
                                     diagramsProcessed = length diagrams, error = None\<rparr>,
                                    w1\<lparr>disk := (disk w1)(path := Inr updatedContent),
                                       writes := writes w1 @ [(path, updatedContent)]\<rparr>))))))"

section \<open>The whole run (processor.ts, processDirectory; index.ts, processMermaidDiagrams)\<close>

text \<open>
  \<open>files.slice(start, stop)\<close>: both arguments are converted to an integer or an
  infinity; a negative index counts from the end, and both are clamped to the
  array.
\<close>

fun clampIndex :: "int \<Rightarrow> integerOrInfinity \<Rightarrow> int" where
  "clampIndex len MinusInf = 0"
| "clampIndex len (Finite r) = (if r < 0 then max (len + r) 0 else min r len)"
| "clampIndex len PlusInf = len"

definition slice :: "'a list \<Rightarrow> jsNumber \<Rightarrow> jsNumber \<Rightarrow> 'a list" where
  "slice xs start stop =
     (let len = int (length xs);
          k = clampIndex len (toIntegerOrInfinity start);
          final = clampIndex len (toIntegerOrInfinity stop)
      in take (nat (final - k)) (drop (nat k) xs))"

text \<open>
  The loop that cuts the file list into chunks,
  \<^verbatim>\<open>for (let i = 0; i < files.length; i += config.concurrent)\<close>,
  started by \<open>chunkLoop files c (Num 0) []\<close>. Nothing bounds it from the code, so it
  is a partial function: \<open>None\<close> is the loop that never ends.
\<close>

partial_function (option) chunkLoop ::
  "string list \<Rightarrow> jsNumber \<Rightarrow> jsNumber \<Rightarrow> string list list \<Rightarrow> string list list option" where
  "chunkLoop files c i chunks =
     (if jsLess i (Num (of_nat (length files)))
      then chunkLoop files c (jsAdd i c) (chunks @ [slice files i (jsAdd i c)])
      else Some chunks)"

declare chunkLoop.simps [code]

text \<open>
  \<open>Promise.all(chunk.map(processFileFn))\<close>: the files of a chunk, each processed
  once; the results keep the order of the chunk. The files of a run are distinct
  paths and a call touches its own file only, so the calls are modelled one after
  the other.
\<close>

fun processChunk ::
  "platform \<Rightarrow> gateway \<Rightarrow> ProcessorConfig \<Rightarrow> string list \<Rightarrow> world
     \<Rightarrow> ProcessingResult list \<times> world" where
  "processChunk P render config [] w = ([], w)"
| "processChunk P render config (f # fs) w =
     (let (r, w1) = processFile P render config f w;
          (rs, w2) = processChunk P render config fs w1
      in (r # rs, w2))"

fun processChunks ::
  "platform \<Rightarrow> gateway \<Rightarrow> ProcessorConfig \<Rightarrow> string list list \<Rightarrow> ProcessingResult list \<Rightarrow> world
     \<Rightarrow> ProcessingResult list \<times> world" where
  "processChunks P render config [] results w = (results, w)"
| "processChunks P render config (chunk # chunks) results w =
     (let (chunkResults, w1) = processChunk P render config chunk w
      in processChunks P render config chunks (results @ chunkResults) w1)"

definition calculateStats :: "ProcessingResult list \<Rightarrow> ProcessingStats" where
  "calculateStats results =
     \<lparr>filesProcessed = length results,
      diagramsGenerated =
        foldl (\<lambda>acc result. acc + (if success result then diagramsProcessed result else 0)) 0 results,
      diagramsSkipped = 0,
      errors = length (filter (\<lambda>result. \<not> success result) results)\<rparr>"

text \<open>
  The result of \<open>processDirectory\<close> is \<open>None\<close> when the chunk loop never ends,
  \<open>Inl\<close> the error when the walk of the input directory throws, and \<open>Inr\<close> the
  statistics otherwise.
\<close>

definition processDirectory ::
  "platform \<Rightarrow> gateway \<Rightarrow> ProcessorConfig \<Rightarrow> world \<Rightarrow> ((string + ProcessingStats) \<times> world) option" where
  "processDirectory P render config w =
     (case listing w (inputDir config) of
        Inl e \<Rightarrow> Some (Inl e, w)
      | Inr files \<Rightarrow>
          (case chunkLoop files (concurrent config) (Num 0) [] of
             None \<Rightarrow> None
           | Some chunks \<Rightarrow>
               (let (results, w') = processChunks P render config chunks [] w
                in Some (Inr (calculateStats results), w'))))"

text \<open>
  \<open>processMermaidDiagrams\<close>, from the configuration as merged with the defaults:
  it opens the cache database when \<open>dbPath\<close> is set (and not the empty string) and
  then runs \<open>processDirectory\<close>, which gets the configuration only.
\<close>

definition processMermaidDiagrams ::
  "platform \<Rightarrow> gateway \<Rightarrow> ProcessorConfig \<Rightarrow> world \<Rightarrow> ((string + ProcessingStats) \<times> world) option" where
  "processMermaidDiagrams P render config w =
     (let initResult =
            (case dbPath config of
               None \<Rightarrow> Inr w
             | Some p \<Rightarrow>
                 if p = [] then Inr w
                 else (case dbOpenError w p of
                         Some e \<Rightarrow> Inl (''Database initialization failed: '' @ e)
                       | None \<Rightarrow> Inr (w\<lparr>dbHandle := True\<rparr>)))
      in case initResult of
           Inl msg \<Rightarrow> Some (Inl msg, w)
         | Inr w1 \<Rightarrow>
             (case processDirectory P render config w1 of
                None \<Rightarrow> None
              | Some (Inl e, w2) \<Rightarrow> Some (Inl (''Processing failed: '' @ e), w2)
              | Some (Inr stats, w2) \<Rightarrow> Some (Inr stats, w2)))"

section \<open>The matches of a text, in order\<close>

text \<open>
  \<open>regexMatches\<close> lists what the successive searches find in a text: for every
  match the text between the previous match and this one, and the captured body.
  \<open>regexTail\<close> is the text after the last match. They describe both loops: the
  extractor makes one block per match, the rewriter one replacement per match.
\<close>

function regexMatches :: "string \<Rightarrow> (string \<times> string) list" where
  "regexMatches text =
     (case regexSearch text of
        None \<Rightarrow> []
      | Some (pre, body, rest) \<Rightarrow> (pre, body) # regexMatches rest)"
  by pat_completeness auto
termination
  by (relation "measure length") (auto dest: regexSearch_shorter)

function regexTail :: "string \<Rightarrow> string" where
  "regexTail text =
     (case regexSearch text of
        None \<Rightarrow> text
      | Some (pre, body, rest) \<Rightarrow> regexTail rest)"
  by pat_completeness auto
termination
  by (relation "measure length") (auto dest: regexSearch_shorter)

text \<open>
  What \<open>processDiagram\<close> returns for a block, the world left aside.
\<close>

definition diagramResult ::
  "platform \<Rightarrow> gateway \<Rightarrow> ProcessorConfig \<Rightarrow> string \<Rightarrow> DiagramInfo \<Rightarrow> string + string" where
  "diagramResult P render config path d =
     (case render (code d) (themeName (defaultTheme config)) of
        Inl e \<Rightarrow> Inl e
      | Inr svg \<Rightarrow>
          Inr (pathJoin P (outputDir config)
                 (pathBasename P path (pathExtname P path) @ ''-'' @ id' d @ ''.svg'')))"

section \<open>Example inputs\<close>

text \<open>
  A platform for the examples: \<open>exampleSha256\<close> is a table of the SHA-256 digests
  of the bodies the examples use, and the path functions do what Node's do on plain
  relative paths such as \<open>docs/a.md\<close>.
\<close>

definition exampleSha256 :: "string \<Rightarrow> string" where
  "exampleSha256 s =
     (if s = [] then ''e3b0c44298fc1c149afbf4c8996fb92427ae41e4649b934ca495991b7852b855''
      else if s = ''graph TD'' @ [LF] @ ''A-->B''
        then ''f202f94e8104ac38b446dbb208fb4b99e4d6d547d094ccaf7749092be86e8fef''
      else if s = ''pie title P''
        then ''8bac1d868c8297bccdcc9690b9e0fe885fb6b24c3f1c833e3d18b21ed11d1920''
      else if s = ''not a diagram''
        then ''486d9d241d7bf98fb6be9d78a1734510b145ced330460ed54f3ced0973f0f74f''
      else replicate 64 (CHR ''0''))"

definition lastSegment :: "string \<Rightarrow> string" where
  "lastSegment p = rev (takeWhile (\<lambda>c. c \<noteq> CHR ''/'') (rev p))"

definition exampleExtname :: "string \<Rightarrow> string" where
  "exampleExtname p =
     (let b = lastSegment p
      in if CHR ''.'' \<in> set (drop 1 b)
         then CHR ''.'' # rev (takeWhile (\<lambda>c. c \<noteq> CHR ''.'') (rev b))
         else [])"

definition exampleBasename :: "string \<Rightarrow> string \<Rightarrow> string" where
  "exampleBasename p ext =
     (let b = lastSegment p
      in if ext \<noteq> [] \<and> length ext < length b \<and> drop (length b - length ext) b = ext
         then take (length b - length ext) b
         else b)"

definition examplePlatform :: platform where
  "examplePlatform =
     \<lparr>sha256hex = exampleSha256,
      pathJoin = (\<lambda>dir name. dir @ ''/'' @ name),
      pathBasename = exampleBasename,
      pathExtname = exampleExtname\<rparr>"

text \<open>
  Documents: two fenced blocks; three fenced blocks; the document of the
  repository's test of empty blocks; a block of blanks.
\<close>

definition graphCode :: string where
  "graphCode = ''graph TD'' @ [LF] @ ''A-->B''"

definition graphBlock :: string where
  "graphBlock = ''```mermaid'' @ [LF] @ ''graph TD'' @ [LF] @ ''A-->B'' @ [LF] @ ''```''"

definition pieBlock :: string where
  "pieBlock = ''```mermaid'' @ [LF] @ ''  pie title P '' @ [LF] @ ''```''"

definition twoBlocks :: string where
  "twoBlocks = ''# T'' @ [LF] @ graphBlock @ [LF] @ ''and'' @ [LF] @ pieBlock @ [LF] @ ''end''"


definition emptyBlockDoc :: string where
  "emptyBlockDoc =
     ''# Empty Mermaid Block'' @ [LF, LF] @ ''```mermaid'' @ [LF, LF] @ ''```'' @ [LF, LF] @
     ''Content after empty block.''"

definition blankBlockDoc :: string where
  "blankBlockDoc = ''```mermaid'' @ [LF] @ ''   '' @ [LF] @ ''```''"

definition exampleConfig :: ProcessorConfig where
  "exampleConfig =
     \<lparr>inputDir = ''docs'', outputDir = ''out'', baseUrl = ''/img'', defaultTheme = Dark,
      generateBothThemes = False, includeSourceCode = True, sourceCodeStyle = NoSource,
      backgroundColor = ''transparent'', concurrent = Num 2, skipExisting = False, verbose = True,
      dbPath = None\<rparr>"

text \<open>
  A directory of three documents, two of which hold the same diagram; the same
  directory with a cache that already holds the artifact of that diagram; the
  directory with a document that cannot be read; and worlds that hold the other
  documents.
\<close>

definition exampleWorld :: world where
  "exampleWorld =
     \<lparr>listing = (\<lambda>dir. if dir = ''docs'' then Inr [''docs/a.md'', ''docs/b.md'', ''docs/c.md'']
                        else Inl ''Error: ENOENT: no such file or directory''),
      disk = (\<lambda>path. if path = ''docs/a.md'' then Inr (''# A'' @ [LF] @ graphBlock)
                     else if path = ''docs/b.md'' then Inr (''# B'' @ [LF] @ graphBlock)
                     else if path = ''docs/c.md'' then Inr ''no diagram here''
                     else Inl ''Error: ENOENT: no such file or directory''),
      writeFails = (\<lambda>path. None),
      renders = [],
      writes = [],
      dbOpenError = (\<lambda>path. None),
      dbHandle = False,
      diagram_cache = Map.empty\<rparr>"

definition warmWorld :: world where
  "warmWorld =
     exampleWorld\<lparr>diagram_cache :=
       [''f202f94e8104ac38b446dbb208fb4b99e4d6d547d094ccaf7749092be86e8fef'' \<mapsto> ''out/a-f202f94e.svg'']\<rparr>"

definition brokenWorld :: world where
  "brokenWorld = exampleWorld\<lparr>disk := (disk exampleWorld)(''docs/b.md'' :=
     Inl ''Error: EACCES: permission denied'')\<rparr>"


definition emptyBlockWorld :: world where
  "emptyBlockWorld = exampleWorld\<lparr>disk := (disk exampleWorld)(''docs/empty.md'' := Inr emptyBlockDoc)\<rparr>"

section \<open>The loops in closed form\<close>

declare extractLoop.simps [simp del] replaceLoop.simps [simp del]
  regexMatches.simps [simp del] regexTail.simps [simp del]

lemma regexMatches_None: "regexSearch text = None \<Longrightarrow> regexMatches text = []"
  by (subst regexMatches.simps) simp

lemma regexMatches_Some:
  "regexSearch text = Some (pre, body, rest) \<Longrightarrow> regexMatches text = (pre, body) # regexMatches rest"
  by (subst regexMatches.simps) simp

lemma regexTail_None: "regexSearch text = None \<Longrightarrow> regexTail text = text"
  by (subst regexTail.simps) simp

lemma regexTail_Some:
  "regexSearch text = Some (pre, body, rest) \<Longrightarrow> regexTail text = regexTail rest"
  by (subst regexTail.simps) simp

lemma extractLoop_None: "regexSearch text = None \<Longrightarrow> extractLoop P text idx ds = ds"
  by (subst extractLoop.simps) simp

lemma extractLoop_Some:
  "regexSearch text = Some (pre, body, rest) \<Longrightarrow>
   extractLoop P text idx ds = extractLoop P rest (idx + 1) (ds @ [mkDiagram P idx body])"
  by (subst extractLoop.simps) simp

lemma replaceLoop_None: "regexSearch text = None \<Longrightarrow> replaceLoop f idx text = Inr text"
  by (subst replaceLoop.simps) simp

lemma replaceLoop_Some:
  "regexSearch text = Some (pre, body, rest) \<Longrightarrow>
   replaceLoop f idx text =
     (case f idx (fence body) body of
        Inl e \<Rightarrow> Inl e
      | Inr (r, idx') \<Rightarrow>
          (case replaceLoop f idx' rest of
             Inl e \<Rightarrow> Inl e
           | Inr out \<Rightarrow> Inr (pre @ r @ out)))"
  by (subst replaceLoop.simps) simp

lemma extractLoop_closed:
  "extractLoop P s idx ds =
     ds @ map (\<lambda>(k, pre, body). mkDiagram P k body) (enumerate idx (regexMatches s))"
proof (induction "length s" arbitrary: s idx ds rule: less_induct)
  case less
  show ?case
  proof (cases "regexSearch s")
    case None
    then show ?thesis by (simp add: extractLoop_None regexMatches_None)
  next
    case (Some m)
    then obtain pre body rest where m: "regexSearch s = Some (pre, body, rest)"
      by (cases m) auto
    from regexSearch_shorter [OF m] less
    have "extractLoop P rest (idx + 1) (ds @ [mkDiagram P idx body]) =
            (ds @ [mkDiagram P idx body]) @
            map (\<lambda>(k, pre, body). mkDiagram P k body) (enumerate (idx + 1) (regexMatches rest))"
      by blast
    then show ?thesis
      by (simp add: extractLoop_Some [OF m] regexMatches_Some [OF m])
  qed
qed

lemma extract_closed:
  "extractMermaidDiagrams P T =
     map (\<lambda>(k, pre, body). mkDiagram P k body) (enumerate 0 (regexMatches T))"
  by (simp add: extractMermaidDiagrams_def extractLoop_closed)

lemma reassemble:
  "concat (map (\<lambda>(pre, body). pre @ fence body) (regexMatches s)) @ regexTail s = s"
proof (induction "length s" arbitrary: s rule: less_induct)
  case less
  show ?case
  proof (cases "regexSearch s")
    case None
    then show ?thesis by (simp add: regexTail_None regexMatches_None)
  next
    case (Some m)
    then obtain pre body rest where m: "regexSearch s = Some (pre, body, rest)"
      by (cases m) auto
    from regexSearch_shorter [OF m] less
    have "concat (map (\<lambda>(pre, body). pre @ fence body) (regexMatches rest)) @ regexTail rest = rest"
      by blast
    then have "concat (map (\<lambda>(pre, body). pre @ fence body) (regexMatches s)) @ regexTail s =
            pre @ fence body @ rest"
      by (simp add: regexTail_Some [OF m] regexMatches_Some [OF m])
    also have "\<dots> = s"
      using regexSearch_decomp [OF m] by simp
    finally show ?thesis .
  qed
qed

lemma replaceLoop_exhausted:
  "length svgPaths \<le> idx \<Longrightarrow> replaceLoop (replacer config ds svgPaths) idx s = Inr s"
proof (induction "length s" arbitrary: s rule: less_induct)
  case less
  show ?case
  proof (cases "regexSearch s")
    case None
    then show ?thesis by (simp add: replaceLoop_None)
  next
    case (Some m)
    then obtain pre body rest where m: "regexSearch s = Some (pre, body, rest)"
      by (cases m) auto
    from regexSearch_shorter [OF m] less
    have "replaceLoop (replacer config ds svgPaths) idx rest = Inr rest"
      by blast
    with less.prems have "replaceLoop (replacer config ds svgPaths) idx s = Inr (pre @ fence body @ rest)"
      by (simp add: replaceLoop_Some [OF m] replacer_def)
    also have "pre @ fence body @ rest = s"
      using regexSearch_decomp [OF m] by simp
    finally show ?thesis .
  qed
qed

lemma untouched_from:
  "length svgPaths \<le> idx \<Longrightarrow>
   concat (map (\<lambda>(k, pre, body). pre @ (if k < length svgPaths then g k body else fence body))
             (enumerate idx ms)) =
   concat (map (\<lambda>(pre, body). pre @ fence body) ms)"
  by (induction ms arbitrary: idx) auto

lemma replaceLoop_closed:
  "idx + length (regexMatches s) \<le> length ds \<Longrightarrow>
   replaceLoop (replacer config ds svgPaths) idx s =
     Inr (concat (map (\<lambda>(k, pre, body).
            pre @ (if k < length svgPaths
                   then replacement config (ds ! k) (svgPaths ! k) body
                   else fence body)) (enumerate idx (regexMatches s))) @ regexTail s)"
proof (induction "length s" arbitrary: s idx rule: less_induct)
  case less
  show ?case
  proof (cases "regexSearch s")
    case None
    then show ?thesis by (simp add: replaceLoop_None regexMatches_None regexTail_None)
  next
    case (Some m)
    then obtain pre body rest where m: "regexSearch s = Some (pre, body, rest)"
      by (cases m) auto
    note ms = regexMatches_Some [OF m]
    show ?thesis
    proof (cases "idx < length svgPaths")
      case True
      from less.prems ms have b: "idx < length ds" and "(idx + 1) + length (regexMatches rest) \<le> length ds"
        by simp_all
      with regexSearch_shorter [OF m] less.hyps
      have "replaceLoop (replacer config ds svgPaths) (idx + 1) rest =
              Inr (concat (map (\<lambda>(k, pre, body).
                pre @ (if k < length svgPaths
                       then replacement config (ds ! k) (svgPaths ! k) body
                       else fence body)) (enumerate (idx + 1) (regexMatches rest))) @ regexTail rest)"
        by blast
      with True b show ?thesis
        by (simp add: replaceLoop_Some [OF m] replacer_def ms regexTail_Some [OF m])
    next
      case False
      then have le: "length svgPaths \<le> idx" by simp
      have "replaceLoop (replacer config ds svgPaths) idx s = Inr s"
        by (rule replaceLoop_exhausted [OF le])
      moreover have "concat (map (\<lambda>(k, pre, body).
                pre @ (if k < length svgPaths
                       then replacement config (ds ! k) (svgPaths ! k) body
                       else fence body)) (enumerate idx (regexMatches s))) @ regexTail s = s"
        by (simp only: untouched_from [OF le] reassemble)
      ultimately show ?thesis by simp
    qed
  qed
qed

lemma mkDiagram_eq:
  "mkDiagram P k body =
     \<lparr>id' = take 8 (createContentHash P (trim body)), code = trim body,
      altText = ''Mermaid diagram '' @ numberToString (k + 1), index = k\<rparr>"
  by (simp add: mkDiagram_def substring0_def Let_def)

lemma map_index_enumerate:
  "map (\<lambda>(k, pre, body). index (mkDiagram P k body)) (enumerate n ms) = [n..<n + length ms]"
  by (induction ms arbitrary: n) (auto simp: mkDiagram_def Let_def upt_rec)

section \<open>One file\<close>

lemma processDiagram_eq:
  "processDiagram P render config d path w =
     (diagramResult P render config path d,
      w\<lparr>renders := renders w @ [(code d, themeName (defaultTheme config))]\<rparr>)"
  by (simp add: processDiagram_def diagramResult_def Let_def split: sum.splits)

lemma processDiagrams_eq:
  "processDiagrams P render config ds path w =
     (map (diagramResult P render config path) ds,
      w\<lparr>renders := renders w @ map (\<lambda>d. (code d, themeName (defaultTheme config))) ds\<rparr>)"
  by (induction ds arbitrary: w) (simp_all add: processDiagram_eq)

lemma processFile_unreadable:
  "disk w path = Inl e \<Longrightarrow> processFile P render config path w = (failedFile path e, w)"
  by (simp add: processFile_def)

lemma processFile_no_blocks:
  "disk w path = Inr content \<Longrightarrow> extractMermaidDiagrams P content = [] \<Longrightarrow>
   processFile P render config path w =
     (\<lparr>success = True, filePath = path, diagramsProcessed = 0, error = None\<rparr>, w)"
  by (simp add: processFile_def)

lemma processFile_render_failed:
  assumes "disk w path = Inr content"
    and "filter isl (map (diagramResult P render config path) (extractMermaidDiagrams P content)) \<noteq> []"
  shows "processFile P render config path w =
     (\<lparr>success = False, filePath = path, diagramsProcessed = 0,
       error = Some (join ''; '' (map (case_sum (\<lambda>msg. msg) (\<lambda>_. []))
                 (filter isl (map (diagramResult P render config path)
                    (extractMermaidDiagrams P content)))))\<rparr>,
      w\<lparr>renders := renders w @
           map (\<lambda>d. (code d, themeName (defaultTheme config))) (extractMermaidDiagrams P content)\<rparr>)"
proof -
  from assms(2) have "extractMermaidDiagrams P content \<noteq> []" by auto
  with assms show ?thesis
    by (simp add: processFile_def processDiagrams_eq Let_def)
qed

lemma processFile_renders:
  "renders (snd (processFile P render config path w)) =
     renders w @
     (case disk w path of
        Inl e \<Rightarrow> []
      | Inr content \<Rightarrow>
          map (\<lambda>d. (code d, themeName (defaultTheme config))) (extractMermaidDiagrams P content))"
  by (simp add: processFile_def processDiagrams_eq Let_def failedFile_def
      split: sum.splits option.splits)

lemma processFile_cache:
  "diagram_cache (snd (processFile P render config path w)) = diagram_cache w \<and>
   dbHandle (snd (processFile P render config path w)) = dbHandle w"
  by (simp add: processFile_def processDiagrams_eq Let_def failedFile_def
      split: sum.splits option.splits)

lemma processFile_filePath:
  "filePath (fst (processFile P render config path w)) = path"
  by (simp add: processFile_def processDiagrams_eq Let_def failedFile_def
      split: sum.splits option.splits)





lemma processFile_success_no_error:
  "success (fst (processFile P render config path w)) \<longrightarrow>
   error (fst (processFile P render config path w)) = None"
  by (simp add: processFile_def processDiagrams_eq Let_def failedFile_def
      split: sum.splits option.splits)

section \<open>The chunk loop and the statistics\<close>

lemma toIntegerOrInfinity_int: "toIntegerOrInfinity (Num (of_int k)) = Finite k"
  by (cases "0 \<le> k") (simp_all add: truncToZero_def)

lemma jsAdd_int: "jsAdd (Num (of_int i)) (Num (of_int c)) = Num (of_int (i + c))"
  by simp

lemma slice_chunk:
  "0 \<le> i \<Longrightarrow> 1 \<le> c \<Longrightarrow>
   slice xs (Num (of_int i)) (jsAdd (Num (of_int i)) (Num (of_int c))) =
     take (nat c) (drop (nat i) xs)"
  unfolding slice_def Let_def jsAdd_int toIntegerOrInfinity_int
  by (auto simp: min_def)

lemma chunkLoop_never_ends_aux:
  assumes "chunkLoop files cj ij chunks = Some y"
  shows "\<not> (\<exists>c i. cj = Num (of_int c) \<and> ij = Num (of_int i) \<and> c \<le> 0 \<and> i < int (length files))"
  using assms
proof (induction rule: chunkLoop.raw_induct [rotated 1, consumes 1])
  case (1 loop files cj ij chunks y)
  show ?case
  proof
    assume "\<exists>c i. cj = Num (of_int c) \<and> ij = Num (of_int i) \<and> c \<le> 0 \<and> i < int (length files)"
    then obtain c i where a: "cj = Num (of_int c)" "ij = Num (of_int i)" "c \<le> 0"
      "i < int (length files)"
      by blast
    from a(4) have "(of_int i :: rat) < of_nat (length files)"
      by (metis of_int_less_iff of_int_of_nat_eq)
    with a 1(2) have "loop files cj (jsAdd ij cj) (chunks @ [slice files ij (jsAdd ij cj)]) = Some y"
      by simp
    from 1(1) [OF this] have
      "\<not> (\<exists>c' i'. cj = Num (of_int c') \<and> jsAdd ij cj = Num (of_int i') \<and> c' \<le> 0 \<and>
            i' < int (length files))" .
    moreover have "jsAdd ij cj = Num (of_int (i + c))" using a by simp
    moreover have "i + c < int (length files)" using a by simp
    ultimately show False using a by blast
  qed
qed

lemma chunkLoop_never_ends:
  "c \<le> 0 \<Longrightarrow> i < int (length files) \<Longrightarrow>
   chunkLoop files (Num (of_int c)) (Num (of_int i)) chunks = None"
  using chunkLoop_never_ends_aux [of files "Num (of_int c)" "Num (of_int i)" chunks]
  by (cases "chunkLoop files (Num (of_int c)) (Num (of_int i)) chunks") auto

lemma chunkLoop_ends:
  assumes "1 \<le> c" and "0 \<le> i"
  shows "\<exists>cs. chunkLoop files (Num (of_int c)) (Num (of_int i)) chunks = Some (chunks @ cs) \<and>
              concat cs = drop (nat i) files \<and>
              list_all (\<lambda>chunk. chunk \<noteq> [] \<and> int (length chunk) \<le> c) cs"
  using assms(2)
proof (induction "nat (int (length files) - i)" arbitrary: i chunks rule: less_induct)
  case less
  have lt: "jsLess (Num (of_int i)) (Num (of_nat (length files))) \<longleftrightarrow> i < int (length files)"
    by (simp, metis of_int_less_iff of_int_of_nat_eq)
  show ?case
  proof (cases "i < int (length files)")
    case False
    with lt have "chunkLoop files (Num (of_int c)) (Num (of_int i)) chunks = Some chunks"
      by (subst chunkLoop.simps) simp
    moreover from False less.prems have "drop (nat i) files = []" by simp
    ultimately show ?thesis by simp
  next
    case True
    let ?next = "jsAdd (Num (of_int i)) (Num (of_int c))"
    let ?chunk = "slice files (Num (of_int i)) ?next"
    have nx: "?next = Num (of_int (i + c))" by simp
    have sl: "?chunk = take (nat c) (drop (nat i) files)"
      using less.prems assms(1) by (rule slice_chunk)
    from True assms(1) less.prems
    have "nat (int (length files) - (i + c)) < nat (int (length files) - i)" and "0 \<le> i + c"
      by simp_all
    from less.hyps [OF this] obtain cs where
      cs: "chunkLoop files (Num (of_int c)) (Num (of_int (i + c))) (chunks @ [?chunk]) =
             Some ((chunks @ [?chunk]) @ cs)"
        "concat cs = drop (nat (i + c)) files"
        "list_all (\<lambda>chunk. chunk \<noteq> [] \<and> int (length chunk) \<le> c) cs"
      by blast
    from True lt have "chunkLoop files (Num (of_int c)) (Num (of_int i)) chunks =
        chunkLoop files (Num (of_int c)) ?next (chunks @ [?chunk])"
      by (subst chunkLoop.simps) (simp only: if_True)
    with cs(1) nx have 1: "chunkLoop files (Num (of_int c)) (Num (of_int i)) chunks =
        Some (chunks @ (?chunk # cs))"
      by simp
    have "nat (i + c) = nat c + nat i" using assms(1) less.prems by simp
    then have d: "drop (nat (i + c)) files = drop (nat c) (drop (nat i) files)"
      by (simp only: drop_drop)
    have 2: "concat (?chunk # cs) = drop (nat i) files"
      by (simp only: concat.simps cs(2) sl d append_take_drop_id)
    from True less.prems assms(1) have "?chunk \<noteq> []" and "int (length ?chunk) \<le> c"
      unfolding sl by auto
    with cs(3) have 3: "list_all (\<lambda>chunk. chunk \<noteq> [] \<and> int (length chunk) \<le> c) (?chunk # cs)"
      by simp
    from 1 2 3 show ?thesis by blast
  qed
qed

lemma processChunk_foldl:
  "foldl (\<lambda>p f. (fst p @ [fst (processFile P render config f (snd p))],
                        snd (processFile P render config f (snd p)))) (acc, w) fs =
     (acc @ fst (processChunk P render config fs w), snd (processChunk P render config fs w))"
  by (induction fs arbitrary: acc w) (simp_all add: split_def Let_def)

lemma processChunks_foldl:
  "processChunks P render config chunks results w =
     foldl (\<lambda>p f. (fst p @ [fst (processFile P render config f (snd p))],
                          snd (processFile P render config f (snd p)))) (results, w) (concat chunks)"
  by (induction chunks arbitrary: results w) (simp_all add: split_def Let_def processChunk_foldl)

lemma foldl_generated:
  "foldl (\<lambda>acc result. acc + (if success result then diagramsProcessed result else 0)) a results =
     a + sum_list (map diagramsProcessed (filter success results))"
  by (induction results arbitrary: a) simp_all

lemma processChunk_success_no_error:
  "list_all (\<lambda>r. success r \<longrightarrow> error r = None) (fst (processChunk P render config fs w))"
  by (induction fs arbitrary: w) (simp_all add: split_def Let_def processFile_success_no_error)

lemma processChunks_success_no_error:
  "list_all (\<lambda>r. success r \<longrightarrow> error r = None) results \<Longrightarrow>
   list_all (\<lambda>r. success r \<longrightarrow> error r = None) (fst (processChunks P render config chunks results w))"
  by (induction chunks arbitrary: results w)
     (simp_all add: split_def Let_def processChunk_success_no_error)

lemma nothing_recorded:
  "\<forall>r. error r = None \<longrightarrow> recorded r = (0::nat) \<Longrightarrow>
   list_all (\<lambda>r. success r \<longrightarrow> error r = None) results \<Longrightarrow>
   sum_list (map recorded (filter success results)) = 0"
  by (induction results) auto

section \<open>The examples, evaluated\<close>

lemmas eval_defs = extractMermaidDiagrams_def extractLoop.simps mkDiagram_def trim_def
  isWhiteSpace_def substring0_def createContentHash_def matchAt_def fenceOpen_def fenceClose_def
  LF_def fence_def

lemma twoBlocks_extracted:
  "extractMermaidDiagrams examplePlatform twoBlocks =
     [\<lparr>id' = ''f202f94e'', code = ''graph TD'' @ [LF] @ ''A-->B'',
       altText = ''Mermaid diagram 1'', index = 0\<rparr>,
      \<lparr>id' = ''8bac1d86'', code = ''pie title P'',
       altText = ''Mermaid diagram 2'', index = 1\<rparr>]"
  by (simp add: twoBlocks_def graphBlock_def pieBlock_def examplePlatform_def exampleSha256_def
      eval_defs)

lemma twoBlocks_matches:
  "regexMatches twoBlocks =
     [(''# T'' @ [LF], ''graph TD'' @ [LF] @ ''A-->B''), ([LF] @ ''and'' @ [LF], ''  pie title P '')]"
  by (simp add: twoBlocks_def graphBlock_def pieBlock_def regexMatches.simps matchAt_def
      fenceOpen_def fenceClose_def LF_def)

lemma twoBlocks_tail: "regexTail twoBlocks = [LF] @ ''end''"
  by (simp add: twoBlocks_def graphBlock_def pieBlock_def regexTail.simps matchAt_def
      fenceOpen_def fenceClose_def LF_def)

lemma c_md_no_blocks: "extractMermaidDiagrams examplePlatform ''no diagram here'' = []"
  by (simp add: eval_defs)

lemma run_stats:
  "map_option fst (processDirectory examplePlatform generateSvg exampleConfig exampleWorld) =
     Some (Inr \<lparr>filesProcessed = 3, diagramsGenerated = 2, diagramsSkipped = 0, errors = 0\<rparr>)"
  by code_simp

lemma run_renders_warm:
  "map_option (renders \<circ> snd)
     (processMermaidDiagrams examplePlatform generateSvg (exampleConfig\<lparr>dbPath := Some ''cache.db''\<rparr>) warmWorld) =
     Some [(graphCode, ''dark''), (graphCode, ''dark'')]"
  by code_simp

lemma run_renders_cold:
  "map_option (renders \<circ> snd)
     (processMermaidDiagrams examplePlatform generateSvg (exampleConfig\<lparr>dbPath := Some ''cache.db''\<rparr>) exampleWorld) =
     Some [(graphCode, ''dark''), (graphCode, ''dark'')]"
  by code_simp

lemma run_opens_cache:
  "map_option (dbHandle \<circ> snd)
     (processMermaidDiagrams examplePlatform generateSvg (exampleConfig\<lparr>dbPath := Some ''cache.db''\<rparr>) warmWorld) =
     Some True"
  by code_simp


lemma broken_results:
  "fst (processChunks examplePlatform generateSvg exampleConfig
         [[''docs/a.md'', ''docs/b.md''], [''docs/c.md'']] [] brokenWorld) =
     [\<lparr>success = True, filePath = ''docs/a.md'', diagramsProcessed = 1, error = None\<rparr>,
      \<lparr>success = False, filePath = ''docs/b.md'', diagramsProcessed = 0,
       error = Some ''Failed to process file: Error: EACCES: permission denied''\<rparr>,
      \<lparr>success = True, filePath = ''docs/c.md'', diagramsProcessed = 0, error = None\<rparr>]"
  by code_simp

lemma example_chunks:
  "chunkLoop [''docs/a.md'', ''docs/b.md'', ''docs/c.md''] (concurrent exampleConfig) (Num 0) [] =
     Some [[''docs/a.md'', ''docs/b.md''], [''docs/c.md'']]"
  by code_simp

section \<open>The claims\<close>

subsection \<open>C1: renders per content fingerprint\<close>

text \<open>
  Claim C1 (at most one render per content fingerprint): the code does not do
  what the claim, and the repository's README ("Smart Caching ... to avoid
  regenerating unchanged diagrams"), say. In a run with a cache location
  configured, over three documents two of which hold the same diagram source,
  \<open>processMermaidDiagrams\<close> opens the database and the gateway is still called
  twice for that source and theme, once per document: both when the cache already
  holds the artifact for the digest of the source (\<open>checkCached\<close> finds it) and
  when the cache starts empty. The processing is never handed the cache.
\<close>

theorem C1_rendered_twice:
  "checkCached (warmWorld\<lparr>dbHandle := True\<rparr>) (createContentHash examplePlatform graphCode) =
       Inr (Some ''out/a-f202f94e.svg'')
   \<and> map_option (dbHandle \<circ> snd)
       (processMermaidDiagrams examplePlatform generateSvg
          (exampleConfig\<lparr>dbPath := Some ''cache.db''\<rparr>) warmWorld) = Some True
   \<and> map_option (renders \<circ> snd)
       (processMermaidDiagrams examplePlatform generateSvg
          (exampleConfig\<lparr>dbPath := Some ''cache.db''\<rparr>) warmWorld) =
       Some [(graphCode, ''dark''), (graphCode, ''dark'')]
   \<and> map_option (renders \<circ> snd)
       (processMermaidDiagrams examplePlatform generateSvg
          (exampleConfig\<lparr>dbPath := Some ''cache.db''\<rparr>) exampleWorld) =
       Some [(graphCode, ''dark''), (graphCode, ''dark'')]"
proof -
  have "checkCached (warmWorld\<lparr>dbHandle := True\<rparr>) (createContentHash examplePlatform graphCode) =
       Inr (Some ''out/a-f202f94e.svg'')"
    by code_simp
  with run_renders_warm run_renders_cold run_opens_cache show ?thesis by blast
qed

subsection \<open>C2: renders that fail and the result of the file\<close>



subsection \<open>C3: an empty body\<close>

text \<open>
  Claim C3 (empty-body skipping): a fenced span whose body is empty or only
  whitespace should yield no block. The source does not skip it: for the document
  of the repository's own test of empty blocks (which expects no diagram, "Empty
  blocks should be ignored") the extractor returns one block, whose code is the
  empty string and whose id is the start of the digest of the empty string; so it
  does for a body of blanks; and \<open>processFile\<close> counts the empty block of the
  test's document as a processed diagram.
\<close>

theorem C3_empty_body_is_extracted:
  "extractMermaidDiagrams P emptyBlockDoc =
     [\<lparr>id' = take 8 (sha256hex P []), code = [], altText = ''Mermaid diagram 1'', index = 0\<rparr>]
   \<and> extractMermaidDiagrams P blankBlockDoc =
     [\<lparr>id' = take 8 (sha256hex P []), code = [], altText = ''Mermaid diagram 1'', index = 0\<rparr>]
   \<and> fst (processFile examplePlatform generateSvg exampleConfig ''docs/empty.md'' emptyBlockWorld) =
     \<lparr>success = True, filePath = ''docs/empty.md'', diagramsProcessed = 1, error = None\<rparr>"
proof (intro conjI)
  show "extractMermaidDiagrams P emptyBlockDoc =
     [\<lparr>id' = take 8 (sha256hex P []), code = [], altText = ''Mermaid diagram 1'', index = 0\<rparr>]"
    by (simp add: emptyBlockDoc_def eval_defs)
  show "extractMermaidDiagrams P blankBlockDoc =
     [\<lparr>id' = take 8 (sha256hex P []), code = [], altText = ''Mermaid diagram 1'', index = 0\<rparr>]"
    by (simp add: blankBlockDoc_def eval_defs)
  show "fst (processFile examplePlatform generateSvg exampleConfig ''docs/empty.md'' emptyBlockWorld) =
     \<lparr>success = True, filePath = ''docs/empty.md'', diagramsProcessed = 1, error = None\<rparr>"
    by code_simp
qed

subsection \<open>C4: the order of the rewrite\<close>

text \<open>
  Claim C4 (order preservation): in the output of \<open>replaceMermaidBlocks\<close>, called
  with the blocks extracted from the same text and any list of artifact paths, the
  text outside the fences stands as it was and the k-th fence is replaced by the
  reference built from the k-th extracted block (\<open>mkDiagram P k body\<close>, made from
  the body of that very fence), the k-th path and the body of the k-th fence; a
  fence beyond the last path is left as it was. No block changes place.
\<close>

theorem C4_rewrite_preserves_order:
  "replaceMermaidBlocks T (extractMermaidDiagrams P T) svgPaths config =
     Inr (concat (map (\<lambda>(k, pre, body).
                         pre @ (if k < length svgPaths
                                then replacement config (mkDiagram P k body) (svgPaths ! k) body
                                else fence body))
                      (enumerate 0 (regexMatches T))) @ regexTail T)
   \<and> extractMermaidDiagrams P T =
       map (\<lambda>(k, pre, body). mkDiagram P k body) (enumerate 0 (regexMatches T))"
proof (intro conjI)
  let ?ds = "extractMermaidDiagrams P T" and ?ms = "regexMatches T"
  have len: "length ?ds = length ?ms"
    by (simp add: extract_closed)
  have nth: "?ds ! k = mkDiagram P k body" if "(k, pre, body) \<in> set (enumerate 0 ?ms)" for k pre body
  proof -
    from that have k: "k < length ?ms" and "?ms ! k = (pre, body)"
      by (auto simp: in_set_enumerate_eq)
    then show ?thesis
      by (simp add: extract_closed nth_enumerate_eq)
  qed
  have "replaceMermaidBlocks T ?ds svgPaths config =
          Inr (concat (map (\<lambda>(k, pre, body).
                 pre @ (if k < length svgPaths
                        then replacement config (?ds ! k) (svgPaths ! k) body
                        else fence body)) (enumerate 0 ?ms)) @ regexTail T)"
    unfolding replaceMermaidBlocks_def by (rule replaceLoop_closed) (simp add: len)
  also have "map (\<lambda>(k, pre, body).
                 pre @ (if k < length svgPaths
                        then replacement config (?ds ! k) (svgPaths ! k) body
                        else fence body)) (enumerate 0 ?ms) =
             map (\<lambda>(k, pre, body).
                 pre @ (if k < length svgPaths
                        then replacement config (mkDiagram P k body) (svgPaths ! k) body
                        else fence body)) (enumerate 0 ?ms)"
    by (rule map_cong [OF refl]) (auto simp: nth)
  finally show "replaceMermaidBlocks T ?ds svgPaths config =
     Inr (concat (map (\<lambda>(k, pre, body).
                         pre @ (if k < length svgPaths
                                then replacement config (mkDiagram P k body) (svgPaths ! k) body
                                else fence body))
                      (enumerate 0 ?ms)) @ regexTail T)" .
  show "?ds = map (\<lambda>(k, pre, body). mkDiagram P k body) (enumerate 0 ?ms)"
    by (rule extract_closed)
qed

theorem C4_rewrite_preserves_order_witness:
  "replaceMermaidBlocks twoBlocks (extractMermaidDiagrams examplePlatform twoBlocks)
     [''out/a.svg'', ''out/b.svg''] exampleConfig =
   Inr (''# T'' @ [LF] @ ''![Mermaid diagram 1](/img/a.svg)'' @ [LF] @ ''and'' @ [LF] @
        ''![Mermaid diagram 2](/img/b.svg)'' @ [LF] @ ''end'')"
proof -
  have "replaceMermaidBlocks twoBlocks (extractMermaidDiagrams examplePlatform twoBlocks)
          [''out/a.svg'', ''out/b.svg''] exampleConfig =
        Inr (concat (map (\<lambda>(k, pre, body).
               pre @ (if k < length [''out/a.svg'', ''out/b.svg'']
                      then replacement exampleConfig (mkDiagram examplePlatform k body)
                             ([''out/a.svg'', ''out/b.svg''] ! k) body
                      else fence body))
             (enumerate 0 (regexMatches twoBlocks))) @ regexTail twoBlocks)"
    using C4_rewrite_preserves_order [of twoBlocks examplePlatform "[''out/a.svg'', ''out/b.svg'']" exampleConfig]
    by blast
  also have "\<dots> = Inr (''# T'' @ [LF] @ ''![Mermaid diagram 1](/img/a.svg)'' @ [LF] @ ''and'' @ [LF] @
        ''![Mermaid diagram 2](/img/b.svg)'' @ [LF] @ ''end'')"
    by (simp add: twoBlocks_matches twoBlocks_tail enumerate_simps replacement_def mkDiagram_eq
        sourceSuffix_def exampleConfig_def replaceString_def LF_def)
  finally show ?thesis .
qed

subsection \<open>C5: the statistics\<close>

text \<open>
  Claim C5 (the aggregation formula): for the list of results a run builds,
  filesProcessed is the number of results, diagramsGenerated is the sum of
  diagramsProcessed over the results with success = true, and errors is the number
  of results with success = false plus the render failures recorded inside the
  successful results. \<open>recorded\<close> is any count of the failures a result records
  that is 0 for a result without an error message: a successful result of
  \<open>processFile\<close> carries no error message, so that sum is 0 in every run.
\<close>

theorem C5_stats_formula:
  assumes "\<forall>r. error r = None \<longrightarrow> recorded r = (0::nat)"
    and "results = fst (processChunks P render config chunks [] w)"
  shows "filesProcessed (calculateStats results) = length results
       \<and> diagramsGenerated (calculateStats results) =
           sum_list (map diagramsProcessed (filter success results))
       \<and> errors (calculateStats results) =
           length (filter (\<lambda>r. \<not> success r) results) +
           sum_list (map recorded (filter success results))"
proof -
  have "list_all (\<lambda>r. success r \<longrightarrow> error r = None) results"
    unfolding assms(2) by (rule processChunks_success_no_error) simp
  from nothing_recorded [OF assms(1) this] show ?thesis
    by (simp add: calculateStats_def foldl_generated)
qed

theorem C5_stats_formula_witness:
  "filesProcessed (calculateStats (fst (processChunks examplePlatform generateSvg exampleConfig
         [[''docs/a.md'', ''docs/b.md''], [''docs/c.md'']] [] brokenWorld))) = 3
   \<and> diagramsGenerated (calculateStats (fst (processChunks examplePlatform generateSvg exampleConfig
         [[''docs/a.md'', ''docs/b.md''], [''docs/c.md'']] [] brokenWorld))) = 1
   \<and> errors (calculateStats (fst (processChunks examplePlatform generateSvg exampleConfig
         [[''docs/a.md'', ''docs/b.md''], [''docs/c.md'']] [] brokenWorld))) = 1
   \<and> length (filter (\<lambda>r. \<not> success r) (fst (processChunks examplePlatform generateSvg
         exampleConfig [[''docs/a.md'', ''docs/b.md''], [''docs/c.md'']] [] brokenWorld))) = 1
   \<and> sum_list (map (\<lambda>r. case error r of None \<Rightarrow> 0 | Some msg \<Rightarrow> Suc (count_list msg (CHR '';'')))
         (filter success (fst (processChunks examplePlatform generateSvg exampleConfig
            [[''docs/a.md'', ''docs/b.md''], [''docs/c.md'']] [] brokenWorld)))) = 0"
proof -
  let ?recorded = "\<lambda>r. case error r of None \<Rightarrow> 0 | Some msg \<Rightarrow> Suc (count_list msg (CHR '';''))"
  have h: "\<forall>r. error r = None \<longrightarrow> ?recorded r = (0::nat)" by simp
  from C5_stats_formula [where recorded = ?recorded, OF h refl,
      of examplePlatform generateSvg exampleConfig "[[''docs/a.md'', ''docs/b.md''], [''docs/c.md'']]"
         brokenWorld]
  show ?thesis unfolding broken_results by simp
qed

subsection \<open>C6: what the extractor returns\<close>

text \<open>
  Claim C6 (extraction determinism): the sequence \<open>extractMermaidDiagrams\<close> returns
  is a function of the text alone (and of the hash function, which is Node's): one
  block per match of the fence expression, in order, whose code is the trimmed
  body, whose id is the first 8 characters of the hash of that code, whose label
  is "Mermaid diagram" with the 1-based position, and whose index is the 0-based
  position. Two calls on the same text therefore return the same ids, labels,
  codes, indices and count.
\<close>

theorem C6_extraction_deterministic:
  "extractMermaidDiagrams P T =
     map (\<lambda>(k, pre, body).
            \<lparr>id' = take 8 (createContentHash P (trim body)), code = trim body,
             altText = ''Mermaid diagram '' @ numberToString (k + 1), index = k\<rparr>)
         (enumerate 0 (regexMatches T))
   \<and> map id' (extractMermaidDiagrams P T) =
       map (\<lambda>d. take 8 (createContentHash P (code d))) (extractMermaidDiagrams P T)
   \<and> map index (extractMermaidDiagrams P T) = [0..<length (extractMermaidDiagrams P T)]"
proof (intro conjI)
  show "extractMermaidDiagrams P T =
     map (\<lambda>(k, pre, body).
            \<lparr>id' = take 8 (createContentHash P (trim body)), code = trim body,
             altText = ''Mermaid diagram '' @ numberToString (k + 1), index = k\<rparr>)
         (enumerate 0 (regexMatches T))"
    by (simp add: extract_closed mkDiagram_eq)
  show "map id' (extractMermaidDiagrams P T) =
       map (\<lambda>d. take 8 (createContentHash P (code d))) (extractMermaidDiagrams P T)"
    by (simp add: extract_closed mkDiagram_eq split_def)
  show "map index (extractMermaidDiagrams P T) = [0..<length (extractMermaidDiagrams P T)]"
    using map_index_enumerate [of P 0 "regexMatches T"]
    by (simp add: extract_closed split_def comp_def)
qed

theorem C6_extraction_deterministic_witness:
  "map id' (extractMermaidDiagrams examplePlatform twoBlocks) = [''f202f94e'', ''8bac1d86'']
   \<and> map index (extractMermaidDiagrams examplePlatform twoBlocks) = [0, 1]"
proof -
  have "map index (extractMermaidDiagrams examplePlatform twoBlocks) =
          [0..<length (extractMermaidDiagrams examplePlatform twoBlocks)]"
    using C6_extraction_deterministic [of examplePlatform twoBlocks] by blast
  then show ?thesis by (simp add: twoBlocks_extracted)
qed

subsection \<open>C7: a document without blocks\<close>

text \<open>
  Claim C7 (zero-block documents): for a document that can be read and from which
  no block is extracted, \<open>processFile\<close> returns success = true with
  diagramsProcessed = 0 and leaves the world as it was: nothing is written (and
  nothing is rendered).
\<close>

theorem C7_zero_blocks_unchanged:
  assumes "disk w path = Inr content"
    and "extractMermaidDiagrams P content = []"
  shows "processFile P render config path w =
           (\<lparr>success = True, filePath = path, diagramsProcessed = 0, error = None\<rparr>, w)"
  using assms by (rule processFile_no_blocks)

theorem C7_zero_blocks_unchanged_witness:
  "disk exampleWorld ''docs/c.md'' = Inr ''no diagram here''
   \<and> extractMermaidDiagrams examplePlatform ''no diagram here'' = []
   \<and> processFile examplePlatform generateSvg exampleConfig ''docs/c.md'' exampleWorld =
       (\<lparr>success = True, filePath = ''docs/c.md'', diagramsProcessed = 0, error = None\<rparr>,
        exampleWorld)"
proof -
  have d: "disk exampleWorld ''docs/c.md'' = Inr ''no diagram here''"
    by (simp add: exampleWorld_def)
  from C7_zero_blocks_unchanged [OF d c_md_no_blocks] d c_md_no_blocks
  show ?thesis by blast
qed

subsection \<open>C8: the footnote style\<close>

text \<open>
  Claim C8 (footnote style): for every text, block list, path list and
  configuration, the rewrite with the style \<open>footnote\<close> returns what the rewrite
  with the style \<open>none\<close> returns, the other fields being the same.
\<close>

theorem C8_footnote_equals_none:
  "replaceMermaidBlocks T ds svgPaths (config\<lparr>sourceCodeStyle := Footnote\<rparr>) =
   replaceMermaidBlocks T ds svgPaths (config\<lparr>sourceCodeStyle := NoSource\<rparr>)"
proof -
  have "replacer (config\<lparr>sourceCodeStyle := Footnote\<rparr>) ds svgPaths =
        replacer (config\<lparr>sourceCodeStyle := NoSource\<rparr>) ds svgPaths"
    by (intro ext) (simp add: replacer_def replacement_def sourceSuffix_def)
  then show ?thesis by (simp add: replaceMermaidBlocks_def)
qed

theorem C8_footnote_equals_none_witness:
  "replaceMermaidBlocks twoBlocks (extractMermaidDiagrams examplePlatform twoBlocks)
     [''out/a.svg'', ''out/b.svg''] (exampleConfig\<lparr>sourceCodeStyle := Footnote\<rparr>) =
   Inr (''# T'' @ [LF] @ ''![Mermaid diagram 1](/img/a.svg)'' @ [LF] @ ''and'' @ [LF] @
        ''![Mermaid diagram 2](/img/b.svg)'' @ [LF] @ ''end'')"
proof -
  have "replaceMermaidBlocks twoBlocks (extractMermaidDiagrams examplePlatform twoBlocks)
          [''out/a.svg'', ''out/b.svg''] (exampleConfig\<lparr>sourceCodeStyle := Footnote\<rparr>) =
        replaceMermaidBlocks twoBlocks (extractMermaidDiagrams examplePlatform twoBlocks)
          [''out/a.svg'', ''out/b.svg''] (exampleConfig\<lparr>sourceCodeStyle := NoSource\<rparr>)"
    by (rule C8_footnote_equals_none)
  also have "\<dots> = Inr (''# T'' @ [LF] @ ''![Mermaid diagram 1](/img/a.svg)'' @ [LF] @ ''and'' @ [LF] @
        ''![Mermaid diagram 2](/img/b.svg)'' @ [LF] @ ''end'')"
    unfolding twoBlocks_extracted
    by (simp add: replaceMermaidBlocks_def replaceLoop.simps replacer_def
        twoBlocks_def graphBlock_def pieBlock_def matchAt_def fenceOpen_def fenceClose_def LF_def
        replacement_def sourceSuffix_def exampleConfig_def replaceString_def fence_def)
  finally show ?thesis .
qed

subsection \<open>C9: diagramsSkipped\<close>

text \<open>
  Claim C9: whenever \<open>processDirectory\<close> (or \<open>processMermaidDiagrams\<close> around it)
  returns statistics, their diagramsSkipped is 0, for every configuration
  (\<open>dbPath\<close> included) and every world (the rows of the cache included).
\<close>

theorem C9_diagramsSkipped_zero:
  assumes "processDirectory P render config w = Some (Inr stats, w')
         \<or> processMermaidDiagrams P render config w = Some (Inr stats, w')"
  shows "diagramsSkipped stats = 0"
proof -
  have dir: "diagramsSkipped st = 0"
    if "processDirectory P render config v = Some (Inr st, v')" for v st v'
    using that
    by (auto simp: processDirectory_def calculateStats_def split_def Let_def
        split: sum.splits option.splits)
  from assms show ?thesis
  proof
    assume "processDirectory P render config w = Some (Inr stats, w')"
    then show ?thesis by (rule dir)
  next
    assume "processMermaidDiagrams P render config w = Some (Inr stats, w')"
    then obtain v where "processDirectory P render config v = Some (Inr stats, w')"
      by (auto simp: processMermaidDiagrams_def Let_def
          split: sum.splits option.splits prod.splits if_splits)
    then show ?thesis by (rule dir)
  qed
qed

theorem C9_diagramsSkipped_zero_witness:
  "\<exists>stats w'. processDirectory examplePlatform generateSvg exampleConfig exampleWorld =
                  Some (Inr stats, w')
               \<and> filesProcessed stats = 3 \<and> diagramsGenerated stats = 2
               \<and> diagramsSkipped stats = 0"
proof -
  from run_stats obtain st w' where
    r: "processDirectory examplePlatform generateSvg exampleConfig exampleWorld = Some (Inr st, w')"
    and st: "st = \<lparr>filesProcessed = 3, diagramsGenerated = 2, diagramsSkipped = 0, errors = 0\<rparr>"
    by (cases "processDirectory examplePlatform generateSvg exampleConfig exampleWorld") auto
  from C9_diagramsSkipped_zero [OF disjI1, OF r] have "diagramsSkipped st = 0" .
  with r st show ?thesis by simp
qed

subsection \<open>C10: the chunk loop\<close>

text \<open>
  Claim C10 does not hold of the code for every number \<open>concurrent\<close> can be. With
  0.5, which is below 1, the loop ends (and its first chunk is empty); with 2.5
  and five files it builds a chunk of three files, more than \<open>concurrent\<close>; with
  NaN it ends after one empty chunk, and no file is in any chunk.
\<close>

theorem C10_fractional_counterexample:
  "chunkLoop [''docs/a.md''] (Num (1/2)) (Num 0) [] = Some [[], [''docs/a.md'']]
   \<and> jsLess (Num (1/2)) (Num 1)
   \<and> chunkLoop [''docs/a.md'', ''docs/b.md'', ''docs/c.md'', ''docs/d.md'', ''docs/e.md'']
         (Num (5/2)) (Num 0) [] =
       Some [[''docs/a.md'', ''docs/b.md''], [''docs/c.md'', ''docs/d.md'', ''docs/e.md'']]
   \<and> jsLess (Num (5/2)) (Num (of_nat (length [''docs/c.md'', ''docs/d.md'', ''docs/e.md''])))
   \<and> chunkLoop [''docs/a.md''] NaN (Num 0) [] = Some [[]]"
  by code_simp

text \<open>
  Claim C10, for the whole numbers: for a list of files that is not empty and
  \<open>concurrent\<close> an integer k, the chunk loop of \<open>processDirectory\<close> ends if and only
  if k is at least 1. Then the chunks, put end to end, are the file list; no chunk
  is empty or longer than k; and processing the chunks is calling \<open>processFile\<close>
  on the files of the list, each once, in order, every call in the world the call
  before it left.
\<close>

theorem C10_chunk_loop_integer:
  assumes "files \<noteq> []" and "concurrent config = Num (of_int k)"
  shows "((\<exists>chunks. chunkLoop files (concurrent config) (Num 0) [] = Some chunks) \<longleftrightarrow> 1 \<le> k)
       \<and> (1 \<le> k \<longrightarrow>
            (\<exists>chunks. chunkLoop files (concurrent config) (Num 0) [] = Some chunks
               \<and> concat chunks = files
               \<and> list_all (\<lambda>chunk. chunk \<noteq> [] \<and> int (length chunk) \<le> k) chunks
               \<and> processChunks P render config chunks [] w =
                   foldl (\<lambda>p f. (fst p @ [fst (processFile P render config f (snd p))],
                                  snd (processFile P render config f (snd p))))
                     ([], w) files))"
proof -
  have zero: "Num 0 = Num (of_int 0)" by simp
  have ends: "\<exists>chunks. chunkLoop files (concurrent config) (Num 0) [] = Some chunks
               \<and> concat chunks = files
               \<and> list_all (\<lambda>chunk. chunk \<noteq> [] \<and> int (length chunk) \<le> k) chunks
               \<and> processChunks P render config chunks [] w =
                   foldl (\<lambda>p f. (fst p @ [fst (processFile P render config f (snd p))],
                                  snd (processFile P render config f (snd p))))
                     ([], w) files"
    if c: "1 \<le> k"
  proof -
    from chunkLoop_ends [OF c, of 0 files "[]"] obtain cs where
      cs: "chunkLoop files (Num (of_int k)) (Num (of_int 0)) [] = Some cs" "concat cs = files"
        "list_all (\<lambda>chunk. chunk \<noteq> [] \<and> int (length chunk) \<le> k) cs"
      by auto
    from cs(2) have "processChunks P render config cs [] w =
        foldl (\<lambda>p f. (fst p @ [fst (processFile P render config f (snd p))],
                       snd (processFile P render config f (snd p))))
          ([], w) files"
      by (simp add: processChunks_foldl)
    with cs show ?thesis unfolding assms(2) zero by blast
  qed
  have never: "chunkLoop files (concurrent config) (Num 0) [] = None" if "\<not> 1 \<le> k"
    unfolding assms(2) zero using that assms(1) by (intro chunkLoop_never_ends) simp_all
  from ends never show ?thesis by (cases "1 \<le> k") auto
qed

theorem C10_chunk_loop_integer_witness:
  "[''docs/a.md'', ''docs/b.md'', ''docs/c.md''] \<noteq> []
   \<and> concurrent exampleConfig = Num (of_int 2)
   \<and> chunkLoop [''docs/a.md'', ''docs/b.md'', ''docs/c.md''] (concurrent exampleConfig) (Num 0) [] =
       Some [[''docs/a.md'', ''docs/b.md''], [''docs/c.md'']]
   \<and> processChunks examplePlatform generateSvg exampleConfig
         [[''docs/a.md'', ''docs/b.md''], [''docs/c.md'']] [] exampleWorld =
       foldl (\<lambda>p f. (fst p @ [fst (processFile examplePlatform generateSvg exampleConfig f (snd p))],
                      snd (processFile examplePlatform generateSvg exampleConfig f (snd p))))
         ([], exampleWorld) [''docs/a.md'', ''docs/b.md'', ''docs/c.md'']
   \<and> concurrent (exampleConfig\<lparr>concurrent := Num (of_int 0)\<rparr>) = Num (of_int 0)
   \<and> chunkLoop [''docs/a.md'', ''docs/b.md'', ''docs/c.md'']
         (concurrent (exampleConfig\<lparr>concurrent := Num (of_int 0)\<rparr>)) (Num 0) [] = None"
proof -
  let ?files = "[''docs/a.md'', ''docs/b.md'', ''docs/c.md'']"
  have ne: "?files \<noteq> []" by simp
  have two: "concurrent exampleConfig = Num (of_int 2)" by (simp add: exampleConfig_def)
  from C10_chunk_loop_integer [OF ne two, of examplePlatform generateSvg exampleWorld] example_chunks
  have run: "processChunks examplePlatform generateSvg exampleConfig
         [[''docs/a.md'', ''docs/b.md''], [''docs/c.md'']] [] exampleWorld =
       foldl (\<lambda>p f. (fst p @ [fst (processFile examplePlatform generateSvg exampleConfig f (snd p))],
                      snd (processFile examplePlatform generateSvg exampleConfig f (snd p))))
         ([], exampleWorld) ?files"
    by auto
  have zero: "concurrent (exampleConfig\<lparr>concurrent := Num (of_int 0)\<rparr>) = Num (of_int 0)" by simp
  from C10_chunk_loop_integer [OF ne zero]
  have "chunkLoop ?files (concurrent (exampleConfig\<lparr>concurrent := Num (of_int 0)\<rparr>)) (Num 0) [] = None"
    by (cases "chunkLoop ?files (concurrent (exampleConfig\<lparr>concurrent := Num (of_int 0)\<rparr>)) (Num 0) []")
       auto
  with ne two example_chunks run zero show ?thesis by blast
qed

end
